theory Spec2Isabelle
  imports Main "HOL-Library.Word" "HOL-Library.AList"
begin

section \<open>Values exchanged with the interpreter and the libraries\<close>

text \<open>
  The module \<^verbatim>\<open>utilities.py\<close> talks to three collaborators that are not part of the
  repository: the wall clock (\<^verbatim>\<open>datetime.now\<close>), the HTTP library
  (\<^verbatim>\<open>requests.get\<close>) and the price provider (\<^verbatim>\<open>yfinance\<close>). They are inputs of the
  model. Everything the repository itself computes is a definition below.

  What \<^verbatim>\<open>response.json()\<close> returns is an arbitrary decoded JSON document. A float is
  kept as its 64-bit pattern; an object is the list of its key/value pairs.
\<close>

datatype jvalue =
    JNull
  | JBool bool
  | JInt int
  | JFloat "64 word"
  | JStr string
  | JArr "jvalue list"
  | JObj "(string \<times> jvalue) list"

text \<open>\<^verbatim>\<open>{'source': ..., 'content': ...}\<close>: the source is whatever the provider sent.\<close>

record news_item =
  source :: jvalue
  content :: string

text \<open>
  What a function hands back to its caller: \<^verbatim>\<open>{"error": msg}\<close>, a list of news items, or
  the closing prices by timestamp.
\<close>

type_synonym timestamp = int

datatype retval =
    ErrorDict string
  | NewsList "news_item list"
  | Prices "(timestamp \<times> 64 word) list"

text \<open>
  Exceptions, by what raised them. \<open>LibraryError\<close> is raised inside a library call and
  carries \<^verbatim>\<open>str(e)\<close>; the others are raised by the interpreter on the module's own
  statements: \<^verbatim>\<open>data[:n]\<close> on a value that cannot be sliced, \<^verbatim>\<open>item.get\<close> on a value
  that has no such method, \<^verbatim>\<open>hist['Close']\<close> on a table without that column, and
  \<^verbatim>\<open>raise v\<close> for a \<open>v\<close> that is not an exception.
\<close>

datatype exn =
    LibraryError string
  | NotSliceable jvalue
  | NoGetMethod jvalue
  | KeyError string
  | RaiseOfNonException retval

datatype 'a outcome = Returned 'a | Raised exn

record datetime =
  day_number :: int
  time_of_day :: nat

record request =
  url :: string
  params :: "(string \<times> string) list"
  headers :: "(string \<times> string) list"
  timeout :: nat

text \<open>
  A response object, by the two methods the module calls on it:
  \<^verbatim>\<open>raise_for_status()\<close> raises or does not, \<^verbatim>\<open>json()\<close> raises or returns the document.
\<close>

record response =
  raise_for_status :: "exn option"
  json :: "exn + jvalue"

text \<open>
  The environment of one call of \<^verbatim>\<open>get_stock_news\<close>: the two readings of the clock (line
  99 reads it for \<^verbatim>\<open>to_date\<close>, line 100 reads it again for \<^verbatim>\<open>from_date\<close>), the library's
  date formatting, the provider behind \<^verbatim>\<open>requests.get\<close>, and the interpreter's
  \<^verbatim>\<open>str\<close> on values that are not strings and on its own exceptions.
\<close>

record env =
  now_to :: datetime
  now_from :: datetime
  strftime :: "datetime \<Rightarrow> string \<Rightarrow> string"
  provider :: "request \<Rightarrow> exn + response"
  py_str :: "jvalue \<Rightarrow> string"
  interp_str :: "exn \<Rightarrow> string"

record dataframe =
  index :: "timestamp list"
  columns :: "(string \<times> 64 word list) list"

section \<open>Interpreter primitives the module uses\<close>

text \<open>\<^verbatim>\<open>str.upper()\<close> on ASCII text; bytes outside \<open>a..z\<close> are left as they are.\<close>

definition upper_char :: "char \<Rightarrow> char" where
  "upper_char c =
     (if (97::nat) \<le> of_char c \<and> of_char c \<le> (122::nat)
      then char_of (of_char c - (32::nat)) else c)"

definition upper :: "string \<Rightarrow> string" where
  "upper s = map upper_char s"

text \<open>\<^verbatim>\<open>xs[:n]\<close>: a negative \<open>n\<close> counts from the end.\<close>

definition slice_to :: "'a list \<Rightarrow> int \<Rightarrow> 'a list" where
  "slice_to xs n =
     (if 0 \<le> n then take (nat n) xs else take (nat (int (length xs) + n)) xs)"

text \<open>
  \<^verbatim>\<open>data[:n]\<close> followed by iteration: a list gives its elements, a string its
  characters as one-character strings, anything else cannot be sliced.
\<close>

definition sliced_items :: "jvalue \<Rightarrow> int \<Rightarrow> exn + jvalue list" where
  "sliced_items data n =
     (case data of
        JArr xs \<Rightarrow> Inr (slice_to xs n)
      | JStr s \<Rightarrow> Inr (map (\<lambda>c. JStr [c]) (slice_to s n))
      | _ \<Rightarrow> Inl (NotSliceable data))"

text \<open>\<^verbatim>\<open>d.get(k, default)\<close>\<close>

definition dict_get :: "(string \<times> jvalue) list \<Rightarrow> string \<Rightarrow> jvalue \<Rightarrow> jvalue" where
  "dict_get d k dflt = (case map_of d k of None \<Rightarrow> dflt | Some v \<Rightarrow> v)"

text \<open>A replacement field \<^verbatim>\<open>{v}\<close> of an f-string: a string stands for itself.\<close>

definition format_value :: "env \<Rightarrow> jvalue \<Rightarrow> string" where
  "format_value E v = (case v of JStr s \<Rightarrow> s | _ \<Rightarrow> py_str E v)"

text \<open>\<^verbatim>\<open>str(e)\<close>\<close>

definition str_exn :: "env \<Rightarrow> exn \<Rightarrow> string" where
  "str_exn E e = (case e of LibraryError msg \<Rightarrow> msg | _ \<Rightarrow> interp_str E e)"

text \<open>\<^verbatim>\<open>dt - timedelta(days=n)\<close>\<close>

definition minus_days :: "datetime \<Rightarrow> int \<Rightarrow> datetime" where
  "minus_days dt n = dt\<lparr>day_number := day_number dt - n\<rparr>"

text \<open>\<^verbatim>\<open>if key:\<close> on a value that is \<^verbatim>\<open>None\<close> or a string.\<close>

definition truthy :: "string option \<Rightarrow> bool" where
  "truthy k = (case k of None \<Rightarrow> False | Some s \<Rightarrow> s \<noteq> [])"

text \<open>\<^verbatim>\<open>df.empty\<close>: some axis has length zero.\<close>

definition empty_frame :: "dataframe \<Rightarrow> bool" where
  "empty_frame df = (index df = [] \<or> columns df = [])"

text \<open>
  \<^verbatim>\<open>Series.to_dict()\<close>: a dictionary filled pair by pair, so a repeated key keeps its
  first position and its last value.
\<close>

definition to_dict :: "('k \<times> 'v) list \<Rightarrow> ('k \<times> 'v) list" where
  "to_dict kvs = foldl (\<lambda>d (k, v). AList.update k v d) [] kvs"

section \<open>\<^verbatim>\<open>get_closing_prices\<close> (lines 32 to 57)\<close>

definition get_closing_prices ::
  "(string \<Rightarrow> string \<Rightarrow> string \<Rightarrow> exn + dataframe) \<Rightarrow> string \<Rightarrow> string \<Rightarrow> string \<Rightarrow> retval outcome"
where
  "get_closing_prices history ticker period interval =
     (case history ticker period interval of
        Inl e \<Rightarrow> Raised e
      | Inr hist \<Rightarrow>
          if \<not> empty_frame hist then
            (case map_of (columns hist) ''Close'' of
               None \<Rightarrow> Raised (KeyError ''Close'')
             | Some col \<Rightarrow> Returned (Prices (to_dict (zip (index hist) col))))
          else
            Raised (RaiseOfNonException
              (ErrorDict ''No historical data found for the given ticker and parameters.'')))"

section \<open>\<^verbatim>\<open>get_stock_news\<close> (lines 78 to 134)\<close>

text \<open>
  The body of the function, as written under the \<^verbatim>\<open>@tool\<close> decorator. The credential is
  the argument \<^verbatim>\<open>finnhub_key\<close>, which is \<^verbatim>\<open>None\<close> when the default was taken and the
  variable was not set. \<^verbatim>\<open>target_count\<close> is any integer: the function does not check it.
  Every statement that can raise stands inside the \<^verbatim>\<open>try\<close> of line 108, whose handler
  catches it; the statements before and after it raise nothing.
\<close>

text \<open>Lines 98 to 107: the request.\<close>

definition news_request :: "env \<Rightarrow> string \<Rightarrow> string \<Rightarrow> request" where
  "news_request E stock_symbol finnhub_key =
     (let to_date = strftime E (now_to E) ''%Y-%m-%d'';
          from_date = strftime E (minus_days (now_from E) 7) ''%Y-%m-%d''
      in \<lparr>url = ''https://finnhub.io/api/v1/company-news'',
          params = [(''symbol'', stock_symbol), (''from'', from_date), (''to'', to_date)],
          headers = [(''X-Finnhub-Token'', finnhub_key)],
          timeout = 10\<rparr>)"

text \<open>\<^verbatim>\<open>requests.get\<close>: the call is logged, the provider answers.\<close>

definition requests_get ::
  "env \<Rightarrow> request \<Rightarrow> request list \<Rightarrow> (exn + response) \<times> request list" where
  "requests_get E req log = (provider E req, log @ [req])"

text \<open>Lines 113 to 117: the record built from one raw object.\<close>

definition news_item_of :: "env \<Rightarrow> (string \<times> jvalue) list \<Rightarrow> news_item" where
  "news_item_of E item =
     \<lparr>source = dict_get item ''source'' (JStr ''Finnhub''),
      content = format_value E (dict_get item ''headline'' (JStr ''''))
                @ ''. '' @ format_value E (dict_get item ''summary'' (JStr ''''))\<rparr>"

text \<open>Lines 112 to 117: the loop; \<^verbatim>\<open>item.get\<close> raises on anything that is not an object.\<close>

fun collect_news :: "env \<Rightarrow> jvalue list \<Rightarrow> news_item list \<Rightarrow> exn + news_item list" where
  "collect_news E [] all_news = Inr all_news"
| "collect_news E (JObj item # rest) all_news =
     collect_news E rest (all_news @ [news_item_of E item])"
| "collect_news E (v # rest) all_news = Inl (NoGetMethod v)"

text \<open>Lines 109 to 117: the body of the \<^verbatim>\<open>try\<close>.\<close>

definition try_body ::
  "env \<Rightarrow> request \<Rightarrow> int \<Rightarrow> request list \<Rightarrow> (exn + news_item list) \<times> request list" where
  "try_body E req target_count log =
     (case requests_get E req log of
        (Inl e, log') \<Rightarrow> (Inl e, log')
      | (Inr resp, log') \<Rightarrow>
          (case raise_for_status resp of
             Some e \<Rightarrow> (Inl e, log')
           | None \<Rightarrow>
               (case json resp of
                  Inl e \<Rightarrow> (Inl e, log')
                | Inr data \<Rightarrow>
                    (case sliced_items data target_count of
                       Inl e \<Rightarrow> (Inl e, log')
                     | Inr items \<Rightarrow> (collect_news E items [], log')))))"

text \<open>Lines 127 to 132: the loop that removes duplicates.\<close>

fun unique_loop :: "news_item list \<Rightarrow> string set \<Rightarrow> news_item list \<Rightarrow> news_item list" where
  "unique_loop [] seen unique_news = unique_news"
| "unique_loop (item # rest) seen unique_news =
     (if content item \<notin> seen
      then unique_loop rest (insert (content item) seen) (unique_news @ [item])
      else unique_loop rest seen unique_news)"

text \<open>The result of a call together with the log of HTTP requests it issued.\<close>

record call =
  http_calls :: "request list"
  returned :: retval

definition get_stock_news :: "env \<Rightarrow> string \<Rightarrow> string option \<Rightarrow> int \<Rightarrow> call" where
  "get_stock_news E stock_symbol finnhub_key target_count =
     (let stock_symbol = upper stock_symbol in
      if truthy finnhub_key then
        (case try_body E (news_request E stock_symbol (the finnhub_key)) target_count [] of
           (Inl e, log) \<Rightarrow>
             \<lparr>http_calls = log,
              returned = ErrorDict (''Error fetching news from Finnhub: '' @ str_exn E e)\<rparr>
         | (Inr all_news, log) \<Rightarrow>
             if all_news = [] then
               \<lparr>http_calls = log,
                returned = ErrorDict
                  ''No news found for the given stock symbol. Check if the symbol is correct.''\<rparr>
             else
               \<lparr>http_calls = log,
                returned = NewsList (slice_to (unique_loop all_news {} []) target_count)\<rparr>)
      else
        \<lparr>http_calls = [],
         returned = ErrorDict ''Finnhub API key is required to fetch stock news.''\<rparr>)"

section \<open>Reference definitions\<close>

text \<open>
  First-occurrence deduplication by content, as the specification words it: the item at
  position \<open>i\<close> is kept exactly when no earlier item has the same content.
\<close>

definition first_occurrences :: "news_item list \<Rightarrow> news_item list" where
  "first_occurrences xs =
     map (\<lambda>i. xs ! i)
       (filter (\<lambda>i. content (xs ! i) \<notin> content ` set (take i xs)) [0..<length xs])"

text \<open>The same with a set of contents that count as seen already (the loop's invariant).\<close>

definition unseen_at :: "string set \<Rightarrow> news_item list \<Rightarrow> nat \<Rightarrow> bool" where
  "unseen_at seen xs i = (content (xs ! i) \<notin> seen \<union> content ` set (take i xs))"

text \<open>
  \<^verbatim>\<open>get_stock_news\<close> with line 134 replaced by \<^verbatim>\<open>return unique_news\<close>: the function
  without its final slice.
\<close>

definition get_stock_news_unsliced :: "env \<Rightarrow> string \<Rightarrow> string option \<Rightarrow> int \<Rightarrow> call" where
  "get_stock_news_unsliced E stock_symbol finnhub_key target_count =
     (let stock_symbol = upper stock_symbol in
      if truthy finnhub_key then
        (case try_body E (news_request E stock_symbol (the finnhub_key)) target_count [] of
           (Inl e, log) \<Rightarrow>
             \<lparr>http_calls = log,
              returned = ErrorDict (''Error fetching news from Finnhub: '' @ str_exn E e)\<rparr>
         | (Inr all_news, log) \<Rightarrow>
             if all_news = [] then
               \<lparr>http_calls = log,
                returned = ErrorDict
                  ''No news found for the given stock symbol. Check if the symbol is correct.''\<rparr>
             else
               \<lparr>http_calls = log, returned = NewsList (unique_loop all_news {} [])\<rparr>)
      else
        \<lparr>http_calls = [],
         returned = ErrorDict ''Finnhub API key is required to fetch stock news.''\<rparr>)"

section \<open>A test double\<close>

text \<open>
  A fixed environment for concrete runs: the clock stands at 3 November 2026 (day
  739923 of the proleptic Gregorian calendar), the formatter knows that day and the day a
  week before, and the provider gives the same answer to every request.
\<close>

definition stub_strftime :: "datetime \<Rightarrow> string \<Rightarrow> string" where
  "stub_strftime dt fmt =
     (if fmt = ''%Y-%m-%d'' \<and> day_number dt = 739923 then ''2026-11-03''
      else if fmt = ''%Y-%m-%d'' \<and> day_number dt = 739916 then ''2026-10-27''
      else [])"

definition stub_env :: "(exn + response) \<Rightarrow> env" where
  "stub_env answer =
     \<lparr>now_to = \<lparr>day_number = 739923, time_of_day = 0\<rparr>,
      now_from = \<lparr>day_number = 739923, time_of_day = 0\<rparr>,
      strftime = stub_strftime,
      provider = (\<lambda>req. answer),
      py_str = (\<lambda>v. []),
      interp_str = (\<lambda>e. [])\<rparr>"

definition ok_response :: "jvalue \<Rightarrow> exn + response" where
  "ok_response data = Inr \<lparr>raise_for_status = None, json = Inr data\<rparr>"

definition raw_fields :: "string \<Rightarrow> string \<Rightarrow> (string \<times> jvalue) list" where
  "raw_fields h s = [(''headline'', JStr h), (''summary'', JStr s)]"

definition raw_item :: "string \<Rightarrow> string \<Rightarrow> jvalue" where
  "raw_item h s = JObj (raw_fields h s)"

definition no_history :: "string \<Rightarrow> string \<Rightarrow> string \<Rightarrow> exn + dataframe" where
  "no_history ticker period interval = Inr \<lparr>index = [], columns = []\<rparr>"

text \<open>Provider answers used in the concrete runs, and the record they lead to.\<close>

definition five_items :: "(string \<times> jvalue) list list" where
  "five_items = [raw_fields ''A'' ''a'', raw_fields ''B'' ''b'', raw_fields ''C'' ''c'',
                 raw_fields ''D'' ''d'', raw_fields ''E'' ''e'']"

definition abc_items :: "(string \<times> jvalue) list list" where
  "abc_items = [raw_fields ''A'' ''a'', raw_fields ''B'' ''b'', raw_fields ''C'' ''c'']"

definition abac_items :: "(string \<times> jvalue) list list" where
  "abac_items = [raw_fields ''A'' ''a'', raw_fields ''B'' ''b'', raw_fields ''A'' ''a'',
                 raw_fields ''C'' ''c'']"

definition sparse_items :: "(string \<times> jvalue) list list" where
  "sparse_items = [[(''summary'', JStr ''y'')], [(''headline'', JStr ''X'')], []]"

definition finnhub_item :: "string \<Rightarrow> news_item" where
  "finnhub_item c = \<lparr>source = JStr ''Finnhub'', content = c\<rparr>"

section \<open>Properties of the primitives\<close>

lemma slice_to_nonneg: "0 \<le> n \<Longrightarrow> slice_to xs n = take (nat n) xs"
  by (simp add: slice_to_def)

lemma unique_loop_append:
  "unique_loop xs seen (acc @ acc') = acc @ unique_loop xs seen acc'"
  by (induction xs arbitrary: seen acc') auto

lemma unique_loop_acc: "unique_loop xs seen acc = acc @ unique_loop xs seen []"
  using unique_loop_append [of xs seen acc "[]"] by simp

lemma unseen_at_0: "unseen_at seen (x # xs) 0 = (content x \<notin> seen)"
  by (simp add: unseen_at_def)

lemma unseen_at_Suc: "unseen_at seen (x # xs) (Suc i) = unseen_at (insert (content x) seen) xs i"
  by (simp add: unseen_at_def)

lemma unique_loop_index:
  "unique_loop xs seen [] = map (\<lambda>i. xs ! i) (filter (unseen_at seen xs) [0..<length xs])"
proof (induction xs arbitrary: seen)
  case Nil
  then show ?case by simp
next
  case (Cons x xs)
  have upt: "[0..<length (x # xs)] = 0 # map Suc [0..<length xs]"
    by (simp add: upt_conv_Cons map_Suc_upt del: upt_Suc)
  have tl: "map (\<lambda>i. (x # xs) ! i) (filter (unseen_at seen (x # xs)) (map Suc [0..<length xs]))
      = unique_loop xs (insert (content x) seen) []"
    by (simp add: filter_map o_def unseen_at_Suc Cons.IH)
  show ?case
  proof (cases "content x \<in> seen")
    case True
    then have "insert (content x) seen = seen" by auto
    with tl True show ?thesis
      by (simp only: upt) (simp add: unseen_at_0)
  next
    case False
    with tl unique_loop_acc [of xs "insert (content x) seen" "[x]"] show ?thesis
      by (simp only: upt) (simp add: unseen_at_0)
  qed
qed

lemma unique_loop_first_occurrences: "unique_loop xs {} [] = first_occurrences xs"
  by (simp add: unique_loop_index first_occurrences_def unseen_at_def [abs_def])

lemma unique_loop_contents:
  "content ` set (unique_loop xs seen acc) = content ` set acc \<union> (content ` set xs - seen)"
  by (induction xs arbitrary: seen acc) auto

lemma unique_loop_distinct:
  "distinct (map content acc) \<Longrightarrow> content ` set acc \<subseteq> seen \<Longrightarrow>
   distinct (map content (unique_loop xs seen acc))"
proof (induction xs arbitrary: seen acc)
  case Nil
  then show ?case by simp
next
  case (Cons x xs)
  show ?case
  proof (cases "content x \<in> seen")
    case True
    with Cons show ?thesis by simp
  next
    case False
    with Cons.prems have "distinct (map content (acc @ [x]))"
      and "content ` set (acc @ [x]) \<subseteq> insert (content x) seen"
      by auto
    then have "distinct (map content (unique_loop xs (insert (content x) seen) (acc @ [x])))"
      by (rule Cons.IH)
    with False show ?thesis by simp
  qed
qed

lemma unique_loop_length: "length (unique_loop xs seen acc) \<le> length acc + length xs"
proof (induction xs arbitrary: seen acc)
  case Nil
  then show ?case by simp
next
  case (Cons x xs)
  from Cons [of "insert (content x) seen" "acc @ [x]"] Cons [of seen acc]
  show ?case by auto
qed

lemma collect_news_objects:
  "collect_news E (map JObj objs) acc = Inr (acc @ map (news_item_of E) objs)"
  by (induction objs arbitrary: acc) auto

lemma collect_news_Inr:
  "collect_news E items acc = Inr all_news \<Longrightarrow>
   \<exists>objs. items = map JObj objs \<and> all_news = acc @ map (news_item_of E) objs"
proof (induction E items acc rule: collect_news.induct)
  case (1 E all_news)
  then show ?case by simp
next
  case (2 E item rest acc)
  then obtain objs where "rest = map JObj objs"
    and "all_news = (acc @ [news_item_of E item]) @ map (news_item_of E) objs"
    by auto
  then have "JObj item # rest = map JObj (item # objs)"
    and "all_news = acc @ map (news_item_of E) (item # objs)"
    by simp_all
  then show ?case by (intro exI [of _ "item # objs"] conjI)
qed simp_all

lemma try_body_Inr:
  "try_body E req tc log = (Inr all_news, log') \<Longrightarrow>
   \<exists>resp data items. provider E req = Inr resp \<and> raise_for_status resp = None \<and>
      json resp = Inr data \<and> sliced_items data tc = Inr items \<and>
      collect_news E items [] = Inr all_news \<and> log' = log @ [req]"
  by (auto simp: try_body_def requests_get_def split: sum.splits option.splits)

lemma try_body_log: "snd (try_body E req tc log) = log @ [req]"
  by (simp add: try_body_def requests_get_def split: sum.splits option.splits)

lemma try_body_objects:
  "provider E req = Inr resp \<Longrightarrow> raise_for_status resp = None \<Longrightarrow>
   json resp = Inr (JArr xs) \<Longrightarrow> slice_to xs tc = map JObj objs \<Longrightarrow>
   try_body E req tc log = (Inr (map (news_item_of E) objs), log @ [req])"
  by (simp add: try_body_def requests_get_def sliced_items_def collect_news_objects)

lemma sliced_items_objects:
  "sliced_items data tc = Inr (map JObj objs) \<Longrightarrow> objs \<noteq> [] \<Longrightarrow>
   \<exists>xs. data = JArr xs \<and> slice_to xs tc = map JObj objs"
  by (cases data) (auto simp: sliced_items_def map_eq_Cons_conv neq_Nil_conv)

lemma get_stock_news_objects:
  "k \<noteq> [] \<Longrightarrow> provider E (news_request E (upper s) k) = Inr resp \<Longrightarrow>
   raise_for_status resp = None \<Longrightarrow> json resp = Inr (JArr xs) \<Longrightarrow>
   slice_to xs tc = map JObj objs \<Longrightarrow>
   get_stock_news E s (Some k) tc =
     \<lparr>http_calls = [news_request E (upper s) k],
      returned =
        (if objs = [] then
           ErrorDict ''No news found for the given stock symbol. Check if the symbol is correct.''
         else NewsList (slice_to (unique_loop (map (news_item_of E) objs) {} []) tc))\<rparr>"
  by (simp add: get_stock_news_def truthy_def try_body_objects)

lemma get_stock_news_NewsList:
  assumes "returned (get_stock_news E s key tc) = NewsList out"
  shows "\<exists>k resp xs objs. key = Some k \<and> k \<noteq> [] \<and>
      provider E (news_request E (upper s) k) = Inr resp \<and> raise_for_status resp = None \<and>
      json resp = Inr (JArr xs) \<and> slice_to xs tc = map JObj objs \<and> objs \<noteq> [] \<and>
      out = slice_to (unique_loop (map (news_item_of E) objs) {} []) tc"
proof -
  from assms obtain k where key: "key = Some k" "k \<noteq> []"
    by (cases key) (auto simp: get_stock_news_def truthy_def Let_def split: if_splits)
  let ?req = "news_request E (upper s) k"
  obtain r log where tb: "try_body E ?req tc [] = (r, log)"
    by (cases "try_body E ?req tc []") auto
  with assms key obtain all_news where r: "r = Inr all_news" and ne: "all_news \<noteq> []"
    and out: "out = slice_to (unique_loop all_news {} []) tc"
    by (cases r) (auto simp: get_stock_news_def truthy_def Let_def split: if_splits)
  from tb r obtain resp data items where resp: "provider E ?req = Inr resp"
    "raise_for_status resp = None" "json resp = Inr data"
    and sl: "sliced_items data tc = Inr items"
    and cn: "collect_news E items [] = Inr all_news"
    using try_body_Inr by blast
  from cn obtain objs where objs: "items = map JObj objs" "all_news = map (news_item_of E) objs"
    using collect_news_Inr by fastforce
  with ne have "objs \<noteq> []" by auto
  with sl objs obtain xs where "data = JArr xs" "slice_to xs tc = map JObj objs"
    using sliced_items_objects by blast
  with key resp out objs \<open>objs \<noteq> []\<close> show ?thesis by blast
qed

lemma unique_loop_two:
  "content a \<noteq> content b \<Longrightarrow> unique_loop [a, b] {} [] = [a, b]"
  by simp

lemma get_stock_news_nonneg:
  assumes "returned (get_stock_news E s key tc) = NewsList out" and "0 \<le> tc"
  shows "\<exists>k resp xs objs. key = Some k \<and> k \<noteq> [] \<and>
      provider E (news_request E (upper s) k) = Inr resp \<and> raise_for_status resp = None \<and>
      json resp = Inr (JArr xs) \<and> take (nat tc) xs = map JObj objs \<and> objs \<noteq> [] \<and>
      out = unique_loop (map (news_item_of E) objs) {} []"
proof -
  from get_stock_news_NewsList [OF assms(1)]
  obtain k resp xs objs where k: "key = Some k" "k \<noteq> []"
    and resp: "provider E (news_request E (upper s) k) = Inr resp" "raise_for_status resp = None"
      "json resp = Inr (JArr xs)"
    and sl: "slice_to xs tc = map JObj objs" and ne: "objs \<noteq> []"
    and out: "out = slice_to (unique_loop (map (news_item_of E) objs) {} []) tc"
    by blast
  from sl assms(2) have tk: "take (nat tc) xs = map JObj objs"
    by (simp add: slice_to_nonneg)
  then have "length objs \<le> nat tc"
    by (metis length_map length_take min.cobounded2)
  moreover have "length (unique_loop (map (news_item_of E) objs) {} []) \<le> length objs"
    using unique_loop_length [of "map (news_item_of E) objs" "{}" "[]"] by simp
  ultimately have "out = unique_loop (map (news_item_of E) objs) {} []"
    using out assms(2) by (simp add: slice_to_nonneg)
  with k resp tk ne show ?thesis by blast
qed

lemma stub_provider: "provider (stub_env answer) req = answer"
  by (simp add: stub_env_def)

lemma news_item_of_raw_fields:
  "news_item_of E (raw_fields h s) = \<lparr>source = JStr ''Finnhub'', content = h @ ''. '' @ s\<rparr>"
  by (simp add: news_item_of_def raw_fields_def dict_get_def format_value_def)

lemma stub_run:
  "slice_to (map JObj objs) tc = map JObj objs' \<Longrightarrow>
   get_stock_news (stub_env (ok_response (JArr (map JObj objs)))) s (Some ''key'') tc =
     \<lparr>http_calls = [news_request (stub_env (ok_response (JArr (map JObj objs)))) (upper s) ''key''],
      returned =
        (if objs' = [] then
           ErrorDict ''No news found for the given stock symbol. Check if the symbol is correct.''
         else NewsList (slice_to (unique_loop
           (map (news_item_of (stub_env (ok_response (JArr (map JObj objs))))) objs') {} []) tc))\<rparr>"
  by (rule get_stock_news_objects [where resp = "\<lparr>raise_for_status = None, json = Inr (JArr (map JObj objs))\<rparr>"])
     (simp_all add: stub_provider ok_response_def)

lemma stub_run_unsliced:
  "slice_to (map JObj objs) tc = map JObj objs' \<Longrightarrow> objs' \<noteq> [] \<Longrightarrow>
   returned (get_stock_news_unsliced (stub_env (ok_response (JArr (map JObj objs)))) s (Some ''key'') tc) =
     NewsList (unique_loop
           (map (news_item_of (stub_env (ok_response (JArr (map JObj objs))))) objs') {} [])"
  by (simp add: get_stock_news_unsliced_def truthy_def
      try_body_objects [where resp = "\<lparr>raise_for_status = None, json = Inr (JArr (map JObj objs))\<rparr>"]
      stub_provider ok_response_def)

lemma news_item_of_fields:
  "news_item_of E item =
     \<lparr>source = (case map_of item ''source'' of None \<Rightarrow> JStr ''Finnhub'' | Some v \<Rightarrow> v),
      content =
        (case map_of item ''headline'' of None \<Rightarrow> [] | Some h \<Rightarrow> format_value E h)
        @ ''. '' @
        (case map_of item ''summary'' of None \<Rightarrow> [] | Some v \<Rightarrow> format_value E v)\<rparr>"
  by (simp add: news_item_of_def dict_get_def format_value_def split: option.splits)

section \<open>The claims\<close>

text \<open>
  C1, for a non-negative \<^verbatim>\<open>target_count\<close>. Whenever the call returns a list, the provider
  answered with a JSON array whose first \<^verbatim>\<open>target_count\<close> elements are objects, and the
  returned list is the first-occurrence deduplication of the records built from those
  objects: record \<open>i\<close> is returned exactly when no earlier record has the same content,
  in the order of the array. So the contents of the returned list are pairwise distinct
  and are exactly the contents of the records built.
\<close>

theorem dedup_first_occurrences:
  assumes "returned (get_stock_news E stock_symbol finnhub_key target_count) = NewsList out"
    and "0 \<le> target_count"
  shows "\<exists>k resp xs objs. finnhub_key = Some k \<and>
      provider E (news_request E (upper stock_symbol) k) = Inr resp \<and>
      raise_for_status resp = None \<and> json resp = Inr (JArr xs) \<and>
      take (nat target_count) xs = map JObj objs \<and>
      out = first_occurrences (map (news_item_of E) objs) \<and>
      distinct (map content out) \<and>
      content ` set out = content ` set (map (news_item_of E) objs)"
proof -
  from get_stock_news_nonneg [OF assms]
  obtain k resp xs objs where k: "finnhub_key = Some k"
    and resp: "provider E (news_request E (upper stock_symbol) k) = Inr resp"
      "raise_for_status resp = None" "json resp = Inr (JArr xs)"
    and tk: "take (nat target_count) xs = map JObj objs"
    and out: "out = unique_loop (map (news_item_of E) objs) {} []"
    by blast
  let ?all_news = "map (news_item_of E) objs"
  have "out = first_occurrences ?all_news"
    using out by (simp add: unique_loop_first_occurrences)
  moreover have "distinct (map content out)"
    unfolding out by (rule unique_loop_distinct) simp_all
  moreover have "content ` set out = content ` set ?all_news"
    unfolding out by (simp add: unique_loop_contents)
  ultimately show ?thesis
    using k resp tk by blast
qed

theorem dedup_first_occurrences_witness:
  "returned (get_stock_news (stub_env (ok_response (JArr (map JObj abac_items))))
      ''aapl'' (Some ''key'') 10) =
     NewsList (map finnhub_item [''A. a'', ''B. b'', ''C. c'']) \<and>
   (0::int) \<le> 10 \<and>
   (\<exists>k resp xs objs. Some ''key'' = Some k \<and>
      provider (stub_env (ok_response (JArr (map JObj abac_items))))
        (news_request (stub_env (ok_response (JArr (map JObj abac_items)))) (upper ''aapl'') k) =
        Inr resp \<and>
      raise_for_status resp = None \<and> json resp = Inr (JArr xs) \<and>
      take (nat 10) xs = map JObj objs \<and>
      map finnhub_item [''A. a'', ''B. b'', ''C. c''] =
        first_occurrences
          (map (news_item_of (stub_env (ok_response (JArr (map JObj abac_items))))) objs) \<and>
      distinct (map content (map finnhub_item [''A. a'', ''B. b'', ''C. c''])) \<and>
      content ` set (map finnhub_item [''A. a'', ''B. b'', ''C. c'']) =
        content ` set
          (map (news_item_of (stub_env (ok_response (JArr (map JObj abac_items))))) objs))"
proof -
  let ?E = "stub_env (ok_response (JArr (map JObj abac_items)))"
  have sl: "slice_to (map JObj abac_items) 10 = map JObj abac_items"
    by (simp add: slice_to_def abac_items_def)
  have r: "returned (get_stock_news ?E ''aapl'' (Some ''key'') 10) =
     NewsList (map finnhub_item [''A. a'', ''B. b'', ''C. c''])"
    by (simp add: stub_run [OF sl])
       (simp add: abac_items_def news_item_of_raw_fields finnhub_item_def slice_to_def)
  have z: "(0::int) \<le> 10" by simp
  from dedup_first_occurrences [OF r z] r z show ?thesis
    by (intro conjI)
qed

text \<open>
  C1 as stated, for every successful call, fails for a negative \<^verbatim>\<open>target_count\<close>: with
  \<^verbatim>\<open>target_count = -1\<close> and three raw items A, B, C the loop of line 112 builds the records
  of A and B, their deduplication is A, B, and line 134 (\<^verbatim>\<open>unique_news[:-1]\<close>) returns A
  alone.
\<close>

theorem dedup_negative_count_counterexample:
  "fst (try_body (stub_env (ok_response (JArr (map JObj abc_items))))
         (news_request (stub_env (ok_response (JArr (map JObj abc_items)))) ''AAPL'' ''key'')
         (- 1) []) =
     Inr (map finnhub_item [''A. a'', ''B. b'']) \<and>
   first_occurrences (map finnhub_item [''A. a'', ''B. b'']) =
     map finnhub_item [''A. a'', ''B. b''] \<and>
   returned (get_stock_news (stub_env (ok_response (JArr (map JObj abc_items))))
      ''aapl'' (Some ''key'') (- 1)) =
     NewsList (map finnhub_item [''A. a'']) \<and>
   returned (get_stock_news (stub_env (ok_response (JArr (map JObj abc_items))))
      ''aapl'' (Some ''key'') (- 1)) \<noteq>
     NewsList (first_occurrences (map finnhub_item [''A. a'', ''B. b'']))"
proof -
  let ?E = "stub_env (ok_response (JArr (map JObj abc_items)))"
  have sl: "slice_to (map JObj abc_items) (- 1) =
      map JObj [raw_fields ''A'' ''a'', raw_fields ''B'' ''b'']"
    by (simp add: slice_to_def abc_items_def)
  have t: "fst (try_body ?E (news_request ?E ''AAPL'' ''key'') (- 1) []) =
      Inr (map finnhub_item [''A. a'', ''B. b''])"
    using try_body_objects [where E = ?E and tc = "- 1" and xs = "map JObj abc_items"
        and resp = "\<lparr>raise_for_status = None, json = Inr (JArr (map JObj abc_items))\<rparr>",
        OF _ _ _ sl]
    by (simp add: stub_provider ok_response_def news_item_of_raw_fields finnhub_item_def)
  have f: "first_occurrences (map finnhub_item [''A. a'', ''B. b'']) =
      map finnhub_item [''A. a'', ''B. b'']"
    unfolding unique_loop_first_occurrences [symmetric]
    by (simp add: finnhub_item_def)
  have r: "returned (get_stock_news ?E ''aapl'' (Some ''key'') (- 1)) =
      NewsList (map finnhub_item [''A. a''])"
    by (simp add: stub_run [OF sl])
       (simp add: news_item_of_raw_fields finnhub_item_def slice_to_def)
  from t f r show ?thesis
    by (simp add: finnhub_item_def)
qed

text \<open>
  C2. A call with a positive \<^verbatim>\<open>target_count\<close> that returns a list returns at most
  \<^verbatim>\<open>target_count\<close> entries. And with \<^verbatim>\<open>target_count = 2\<close>, a credential and a provider
  answering with five objects whose contents are pairwise distinct, the call returns
  exactly the records of the first two objects, in the provider's order.
\<close>

theorem truncation_to_target_count:
  "(0 < target_count \<and>
    returned (get_stock_news E stock_symbol finnhub_key target_count) = NewsList out
      \<longrightarrow> int (length out) \<le> target_count) \<and>
   (k \<noteq> [] \<and> provider E (news_request E (upper stock_symbol) k) = Inr resp \<and>
    raise_for_status resp = None \<and>
    json resp = Inr (JArr (map JObj [o1, o2, o3, o4, o5])) \<and>
    distinct (map (\<lambda>item. content (news_item_of E item)) [o1, o2, o3, o4, o5])
      \<longrightarrow> returned (get_stock_news E stock_symbol (Some k) 2) =
            NewsList [news_item_of E o1, news_item_of E o2])"
proof (intro conjI impI)
  assume a: "0 < target_count \<and>
    returned (get_stock_news E stock_symbol finnhub_key target_count) = NewsList out"
  then obtain objs where "out = slice_to (unique_loop (map (news_item_of E) objs) {} []) target_count"
    using get_stock_news_NewsList by blast
  with a have "length out \<le> nat target_count"
    by (simp add: slice_to_nonneg)
  with a show "int (length out) \<le> target_count"
    by linarith
next
  assume a: "k \<noteq> [] \<and> provider E (news_request E (upper stock_symbol) k) = Inr resp \<and>
    raise_for_status resp = None \<and>
    json resp = Inr (JArr (map JObj [o1, o2, o3, o4, o5])) \<and>
    distinct (map (\<lambda>item. content (news_item_of E item)) [o1, o2, o3, o4, o5])"
  have sl: "slice_to (map JObj [o1, o2, o3, o4, o5]) 2 = map JObj [o1, o2]"
    by (simp add: slice_to_def numeral_2_eq_2)
  from a have ne: "content (news_item_of E o1) \<noteq> content (news_item_of E o2)"
    by simp
  from a get_stock_news_objects [of k E stock_symbol resp "map JObj [o1, o2, o3, o4, o5]" 2 "[o1, o2]", OF _ _ _ _ sl]
  have "returned (get_stock_news E stock_symbol (Some k) 2) =
      NewsList (slice_to (unique_loop (map (news_item_of E) [o1, o2]) {} []) 2)"
    by simp
  then show "returned (get_stock_news E stock_symbol (Some k) 2) =
      NewsList [news_item_of E o1, news_item_of E o2]"
    using unique_loop_two [OF ne] by (simp add: slice_to_def)
qed

theorem truncation_to_target_count_witness:
  "returned (get_stock_news (stub_env (ok_response (JArr (map JObj five_items))))
      ''aapl'' (Some ''key'') 2) =
     NewsList [\<lparr>source = JStr ''Finnhub'', content = ''A. a''\<rparr>,
               \<lparr>source = JStr ''Finnhub'', content = ''B. b''\<rparr>] \<and>
   int (length [\<lparr>source = JStr ''Finnhub'', content = ''A. a''\<rparr>,
                \<lparr>source = JStr ''Finnhub'', content = ''B. b''\<rparr>]) \<le> 2 \<and>
   distinct (map (\<lambda>item. content
       (news_item_of (stub_env (ok_response (JArr (map JObj five_items)))) item)) five_items)"
proof -
  let ?E = "stub_env (ok_response (JArr (map JObj five_items)))"
  let ?resp = "\<lparr>raise_for_status = None, json = Inr (JArr (map JObj five_items))\<rparr>"
  have d: "distinct (map (\<lambda>item. content (news_item_of ?E item)) five_items)"
    by (simp add: five_items_def news_item_of_raw_fields)
  have p: "provider ?E (news_request ?E (upper ''aapl'') ''key'') = Inr ?resp"
    by (simp add: stub_provider ok_response_def)
  have r: "returned (get_stock_news ?E ''aapl'' (Some ''key'') 2) =
     NewsList [\<lparr>source = JStr ''Finnhub'', content = ''A. a''\<rparr>,
               \<lparr>source = JStr ''Finnhub'', content = ''B. b''\<rparr>]"
    using truncation_to_target_count
      [of 2 ?E "''aapl''" "Some ''key''" "[]" "''key''" ?resp
          "raw_fields ''A'' ''a''" "raw_fields ''B'' ''b''" "raw_fields ''C'' ''c''"
          "raw_fields ''D'' ''d''" "raw_fields ''E'' ''e''"] d p
    by (simp add: five_items_def news_item_of_raw_fields)
  from truncation_to_target_count
      [of 2 ?E "''aapl''" "Some ''key''"
          "[\<lparr>source = JStr ''Finnhub'', content = ''A. a''\<rparr>,
            \<lparr>source = JStr ''Finnhub'', content = ''B. b''\<rparr>]"] r d
  show ?thesis by simp
qed

text \<open>
  C3. When \<^verbatim>\<open>finnhub_key\<close> is absent (\<^verbatim>\<open>None\<close>) or the empty string, the call returns the
  error value \<^verbatim>\<open>{"error": "Finnhub API key is required to fetch stock news."}\<close> and the
  log of HTTP requests is empty: \<^verbatim>\<open>requests.get\<close> is never invoked, whatever the symbol,
  the count and the environment are.
\<close>

theorem missing_credential_no_call:
  assumes "finnhub_key = None \<or> finnhub_key = Some []"
  shows "get_stock_news E stock_symbol finnhub_key target_count =
    \<lparr>http_calls = [],
     returned = ErrorDict ''Finnhub API key is required to fetch stock news.''\<rparr>"
  using assms by (auto simp: get_stock_news_def truthy_def)

theorem missing_credential_no_call_witness:
  "get_stock_news (stub_env (ok_response (JArr [raw_item ''X'' ''y'']))) ''aapl'' None 100 =
     \<lparr>http_calls = [],
      returned = ErrorDict ''Finnhub API key is required to fetch stock news.''\<rparr> \<and>
   get_stock_news (stub_env (ok_response (JArr [raw_item ''X'' ''y'']))) ''aapl'' (Some []) 100 =
     \<lparr>http_calls = [],
      returned = ErrorDict ''Finnhub API key is required to fetch stock news.''\<rparr>"
  using missing_credential_no_call [of None] missing_credential_no_call [of "Some []"]
  by simp

text \<open>
  C4. With a credential, when the provider answers, \<^verbatim>\<open>raise_for_status\<close> passes and the
  decoded body is the empty list, the call returns the error value with the message
  ``No news found for the given stock symbol. Check if the symbol is correct.'', and
  so not the empty list, for every \<^verbatim>\<open>target_count\<close>.
\<close>

theorem empty_upstream_is_error:
  assumes "k \<noteq> []"
    and "provider E (news_request E (upper stock_symbol) k) = Inr resp"
    and "raise_for_status resp = None"
    and "json resp = Inr (JArr [])"
  shows "returned (get_stock_news E stock_symbol (Some k) target_count) =
      ErrorDict ''No news found for the given stock symbol. Check if the symbol is correct.'' \<and>
    returned (get_stock_news E stock_symbol (Some k) target_count) \<noteq> NewsList []"
proof -
  have "slice_to [] target_count = map JObj []"
    by (simp add: slice_to_def)
  from get_stock_news_objects [OF assms this] show ?thesis
    by simp
qed

theorem empty_upstream_is_error_witness:
  "''key'' \<noteq> [] \<and>
   provider (stub_env (ok_response (JArr [])))
     (news_request (stub_env (ok_response (JArr []))) (upper ''aapl'') ''key'') =
     Inr \<lparr>raise_for_status = None, json = Inr (JArr [])\<rparr> \<and>
   returned (get_stock_news (stub_env (ok_response (JArr []))) ''aapl'' (Some ''key'') 100) =
     ErrorDict ''No news found for the given stock symbol. Check if the symbol is correct.''"
proof -
  have p: "provider (stub_env (ok_response (JArr [])))
     (news_request (stub_env (ok_response (JArr []))) (upper ''aapl'') ''key'') =
     Inr \<lparr>raise_for_status = None, json = Inr (JArr [])\<rparr>"
    by (simp add: stub_env_def ok_response_def)
  have k: "''key'' \<noteq> []" by simp
  from empty_upstream_is_error [OF k p, of 100] k p show ?thesis
    by simp
qed

text \<open>
  C5 says that every failure is handed back as an error value. \<^verbatim>\<open>get_closing_prices\<close>
  does not do so: when the provider's table is empty, line 57 applies \<^verbatim>\<open>raise\<close> to the
  error dictionary instead of returning it, and the caller gets an exception (a
  \<^verbatim>\<open>TypeError\<close>, as a dictionary is not an exception), never the dictionary.
\<close>

theorem closing_prices_empty_raises:
  assumes "history ticker period interval = Inr hist" and "empty_frame hist"
  shows "get_closing_prices history ticker period interval =
    Raised (RaiseOfNonException
      (ErrorDict ''No historical data found for the given ticker and parameters.''))"
  using assms by (simp add: get_closing_prices_def)

theorem closing_prices_empty_raises_witness:
  "no_history ''ZZZZ'' ''1y'' ''1mo'' = Inr \<lparr>index = [], columns = []\<rparr> \<and>
   empty_frame \<lparr>index = [], columns = []\<rparr> \<and>
   get_closing_prices no_history ''ZZZZ'' ''1y'' ''1mo'' =
    Raised (RaiseOfNonException
      (ErrorDict ''No historical data found for the given ticker and parameters.''))"
proof -
  have h: "no_history ''ZZZZ'' ''1y'' ''1mo'' = Inr \<lparr>index = [], columns = []\<rparr>"
    by (simp add: no_history_def)
  have e: "empty_frame \<lparr>index = [], columns = []\<rparr>"
    by (simp add: empty_frame_def)
  from closing_prices_empty_raises
      [of no_history "''ZZZZ''" "''1y''" "''1mo''" "\<lparr>index = [], columns = []\<rparr>", OF h e] h e
  show ?thesis
    by simp
qed

text \<open>
  C6. With a credential and a provider that answers with a JSON array, when the
  elements consumed by \<^verbatim>\<open>data[:target_count]\<close> are objects, whatever keys they have,
  the \<^verbatim>\<open>try\<close> block of \<^verbatim>\<open>get_stock_news\<close> raises nothing and builds one record per
  object: its content is the headline, a full stop and a blank, and the summary, where a
  missing headline or a missing summary contributes the empty string, and its source is
  \<^verbatim>\<open>Finnhub\<close> when the object has none. The call returns the deduplicated records so
  built (or the ``No news found'' error value when no object was consumed), never the
  error value of the exception handler of line 119.
\<close>

theorem missing_fields_become_empty:
  assumes "k \<noteq> []"
    and "provider E (news_request E (upper stock_symbol) k) = Inr resp"
    and "raise_for_status resp = None"
    and "json resp = Inr (JArr xs)"
    and "slice_to xs target_count = map JObj objs"
  shows "fst (try_body E (news_request E (upper stock_symbol) k) target_count []) =
      Inr (map (\<lambda>item.
        \<lparr>source = (case map_of item ''source'' of None \<Rightarrow> JStr ''Finnhub'' | Some v \<Rightarrow> v),
         content =
           (case map_of item ''headline'' of None \<Rightarrow> [] | Some h \<Rightarrow> format_value E h)
           @ ''. '' @
           (case map_of item ''summary'' of None \<Rightarrow> [] | Some v \<Rightarrow> format_value E v)\<rparr>) objs) \<and>
    returned (get_stock_news E stock_symbol (Some k) target_count) =
      (if objs = [] then
         ErrorDict ''No news found for the given stock symbol. Check if the symbol is correct.''
       else NewsList (slice_to (unique_loop (map (\<lambda>item.
        \<lparr>source = (case map_of item ''source'' of None \<Rightarrow> JStr ''Finnhub'' | Some v \<Rightarrow> v),
         content =
           (case map_of item ''headline'' of None \<Rightarrow> [] | Some h \<Rightarrow> format_value E h)
           @ ''. '' @
           (case map_of item ''summary'' of None \<Rightarrow> [] | Some v \<Rightarrow> format_value E v)\<rparr>) objs)
          {} []) target_count)) \<and>
    returned (get_stock_news E stock_symbol (Some k) target_count) \<noteq>
      ErrorDict (''Error fetching news from Finnhub: '' @ msg)"
proof -
  have m: "map (news_item_of E) objs = map (\<lambda>item.
        \<lparr>source = (case map_of item ''source'' of None \<Rightarrow> JStr ''Finnhub'' | Some v \<Rightarrow> v),
         content =
           (case map_of item ''headline'' of None \<Rightarrow> [] | Some h \<Rightarrow> format_value E h)
           @ ''. '' @
           (case map_of item ''summary'' of None \<Rightarrow> [] | Some v \<Rightarrow> format_value E v)\<rparr>) objs"
    by (simp add: news_item_of_fields)
  have t: "fst (try_body E (news_request E (upper stock_symbol) k) target_count []) =
      Inr (map (news_item_of E) objs)"
    using try_body_objects [OF assms(2-5)] by simp
  have r: "returned (get_stock_news E stock_symbol (Some k) target_count) =
      (if objs = [] then
         ErrorDict ''No news found for the given stock symbol. Check if the symbol is correct.''
       else NewsList (slice_to (unique_loop (map (news_item_of E) objs) {} []) target_count))"
    using get_stock_news_objects [OF assms] by simp
  have "returned (get_stock_news E stock_symbol (Some k) target_count) \<noteq>
      ErrorDict (''Error fetching news from Finnhub: '' @ msg)"
    unfolding r by simp
  with t r show ?thesis
    unfolding m by simp
qed

theorem missing_fields_become_empty_witness:
  "returned (get_stock_news (stub_env (ok_response (JArr (map JObj sparse_items))))
      ''aapl'' (Some ''key'') 10) =
     NewsList [\<lparr>source = JStr ''Finnhub'', content = ''. y''\<rparr>,
               \<lparr>source = JStr ''Finnhub'', content = ''X. ''\<rparr>,
               \<lparr>source = JStr ''Finnhub'', content = ''. ''\<rparr>]"
proof -
  let ?E = "stub_env (ok_response (JArr (map JObj sparse_items)))"
  let ?resp = "\<lparr>raise_for_status = None, json = Inr (JArr (map JObj sparse_items))\<rparr>"
  have k: "''key'' \<noteq> []" by simp
  have p: "provider ?E (news_request ?E (upper ''aapl'') ''key'') = Inr ?resp"
    by (simp add: stub_provider ok_response_def)
  have sl: "slice_to (map JObj sparse_items) 10 = map JObj sparse_items"
    by (simp add: slice_to_def sparse_items_def)
  from missing_fields_become_empty [OF k p _ _ sl]
  show ?thesis
    by (simp add: sparse_items_def format_value_def slice_to_def)
qed

text \<open>
  C7. For the symbol \<^verbatim>\<open>aapl\<close>, a credential, \<^verbatim>\<open>target_count = 10\<close> and a provider that
  answers the request for \<^verbatim>\<open>AAPL\<close> with two objects, each with headline \<^verbatim>\<open>X\<close>, summary
  \<^verbatim>\<open>y\<close> and no source, the call issues the one request whose \<^verbatim>\<open>symbol\<close> parameter is
  \<^verbatim>\<open>AAPL\<close> and returns the single record with source \<^verbatim>\<open>Finnhub\<close> and content \<^verbatim>\<open>X. y\<close>.
\<close>

theorem scenario_aapl:
  assumes "k \<noteq> []"
    and "provider E (news_request E ''AAPL'' k) = Inr resp"
    and "raise_for_status resp = None"
    and "json resp = Inr (JArr [JObj [(''headline'', JStr ''X''), (''summary'', JStr ''y'')],
                               JObj [(''headline'', JStr ''X''), (''summary'', JStr ''y'')]])"
  shows "get_stock_news E ''aapl'' (Some k) 10 =
      \<lparr>http_calls = [news_request E ''AAPL'' k],
       returned = NewsList [\<lparr>source = JStr ''Finnhub'', content = ''X. y''\<rparr>]\<rparr> \<and>
    map_of (params (news_request E ''AAPL'' k)) ''symbol'' = Some ''AAPL''"
proof -
  have u: "upper ''aapl'' = ''AAPL''" by code_simp
  let ?o = "[(''headline'', JStr ''X''), (''summary'', JStr ''y'')]"
  have sl: "slice_to [JObj ?o, JObj ?o] 10 = map JObj [?o, ?o]"
    by (simp add: slice_to_def)
  have p: "provider E (news_request E (upper ''aapl'') k) = Inr resp"
    using assms(2) u by simp
  have "get_stock_news E ''aapl'' (Some k) 10 =
     \<lparr>http_calls = [news_request E (upper ''aapl'') k],
      returned = NewsList (slice_to (unique_loop (map (news_item_of E) [?o, ?o]) {} []) 10)\<rparr>"
    using get_stock_news_objects [OF assms(1) p assms(3) assms(4) sl]
    by simp
  then show ?thesis
    by (simp add: u news_item_of_def dict_get_def format_value_def slice_to_def news_request_def)
qed

theorem scenario_aapl_witness:
  "get_stock_news (stub_env (ok_response (JArr [raw_item ''X'' ''y'', raw_item ''X'' ''y''])))
      ''aapl'' (Some ''key'') 10 =
     \<lparr>http_calls =
        [\<lparr>url = ''https://finnhub.io/api/v1/company-news'',
          params = [(''symbol'', ''AAPL''), (''from'', ''2026-10-27''), (''to'', ''2026-11-03'')],
          headers = [(''X-Finnhub-Token'', ''key'')],
          timeout = 10\<rparr>],
      returned = NewsList [\<lparr>source = JStr ''Finnhub'', content = ''X. y''\<rparr>]\<rparr>"
proof -
  let ?E = "stub_env (ok_response (JArr [raw_item ''X'' ''y'', raw_item ''X'' ''y'']))"
  have k: "''key'' \<noteq> []" by simp
  have p: "provider ?E (news_request ?E ''AAPL'' ''key'') =
      Inr \<lparr>raise_for_status = None,
           json = Inr (JArr [JObj [(''headline'', JStr ''X''), (''summary'', JStr ''y'')],
                             JObj [(''headline'', JStr ''X''), (''summary'', JStr ''y'')]])\<rparr>"
    by (simp add: stub_env_def ok_response_def raw_item_def raw_fields_def)
  from scenario_aapl [OF k p] show ?thesis
    by (simp add: news_request_def stub_env_def stub_strftime_def minus_days_def)
qed

text \<open>
  C8. With a non-empty credential the call issues exactly one request through
  \<^verbatim>\<open>requests.get\<close>, whatever the provider answers: to the company-news URL, with the
  parameters \<^verbatim>\<open>symbol\<close> (the upper-cased symbol), \<^verbatim>\<open>from\<close> (the clock reading of line
  100 minus seven days) and \<^verbatim>\<open>to\<close> (the clock reading of line 99), both formatted with
  \<^verbatim>\<open>%Y-%m-%d\<close>, the credential in the header \<^verbatim>\<open>X-Finnhub-Token\<close>, and a timeout of 10
  seconds.
\<close>

theorem one_get_with_window:
  assumes "finnhub_key = Some k" and "k \<noteq> []"
  shows "http_calls (get_stock_news E stock_symbol finnhub_key target_count) =
    [\<lparr>url = ''https://finnhub.io/api/v1/company-news'',
      params = [(''symbol'', upper stock_symbol),
                (''from'', strftime E (minus_days (now_from E) 7) ''%Y-%m-%d''),
                (''to'', strftime E (now_to E) ''%Y-%m-%d'')],
      headers = [(''X-Finnhub-Token'', k)],
      timeout = 10\<rparr>]"
proof -
  let ?req = "news_request E (upper stock_symbol) k"
  have "http_calls (get_stock_news E stock_symbol finnhub_key target_count) =
      snd (try_body E ?req target_count [])"
    using assms
    by (simp add: get_stock_news_def truthy_def split: prod.splits sum.splits)
  then show ?thesis
    by (simp add: try_body_log news_request_def)
qed

theorem one_get_with_window_witness:
  "http_calls (get_stock_news (stub_env (Inl (LibraryError ''timed out''))) ''aapl'' (Some ''key'') 100) =
    [\<lparr>url = ''https://finnhub.io/api/v1/company-news'',
      params = [(''symbol'', ''AAPL''), (''from'', ''2026-10-27''), (''to'', ''2026-11-03'')],
      headers = [(''X-Finnhub-Token'', ''key'')],
      timeout = 10\<rparr>]"
proof -
  have u: "upper ''aapl'' = ''AAPL''" by code_simp
  from one_get_with_window [of "Some ''key''" "''key''" "stub_env (Inl (LibraryError ''timed out''))" "''aapl''" 100]
  show ?thesis
    by (simp add: u stub_env_def stub_strftime_def minus_days_def)
qed

text \<open>
  C9, for a non-negative \<^verbatim>\<open>target_count\<close>. The call and the call without the slice of
  line 134 give the same result and the same request log; and whenever the
  \<^verbatim>\<open>try\<close> block succeeds, the deduplicated list has at most \<^verbatim>\<open>target_count\<close> entries, so
  the slice removes nothing.
\<close>

theorem final_slice_is_identity:
  assumes "0 \<le> target_count"
  shows "get_stock_news E stock_symbol finnhub_key target_count =
      get_stock_news_unsliced E stock_symbol finnhub_key target_count \<and>
    (\<forall>all_news log. try_body E req target_count [] = (Inr all_news, log)
       \<longrightarrow> int (length (unique_loop all_news {} [])) \<le> target_count)"
proof -
  have bound: "length (unique_loop all_news {} []) \<le> nat target_count"
    if "try_body E r target_count [] = (Inr all_news, log)" for r all_news log
  proof -
    from that obtain data items where sl: "sliced_items data target_count = Inr items"
      and cn: "collect_news E items [] = Inr all_news"
      using try_body_Inr by blast
    from sl assms have "length items \<le> nat target_count"
      by (cases data) (auto simp: sliced_items_def slice_to_nonneg)
    moreover from cn have "length all_news = length items"
      using collect_news_Inr by fastforce
    moreover have "length (unique_loop all_news {} []) \<le> length all_news"
      using unique_loop_length [of all_news "{}" "[]"] by simp
    ultimately show ?thesis by simp
  qed
  have same: "slice_to (unique_loop all_news {} []) target_count = unique_loop all_news {} []"
    if "try_body E r target_count [] = (Inr all_news, log)" for r all_news log
    using bound [OF that] assms by (simp add: slice_to_nonneg)
  have "get_stock_news E stock_symbol finnhub_key target_count =
      get_stock_news_unsliced E stock_symbol finnhub_key target_count"
    by (auto simp: get_stock_news_def get_stock_news_unsliced_def Let_def same
        split: prod.splits sum.splits)
  moreover have "int (length (unique_loop all_news {} [])) \<le> target_count"
    if "try_body E req target_count [] = (Inr all_news, log)" for all_news log
    using bound [OF that] assms by linarith
  ultimately show ?thesis by blast
qed

theorem final_slice_is_identity_witness:
  "(0::int) \<le> 2 \<and>
   get_stock_news (stub_env (ok_response (JArr (map JObj abc_items)))) ''aapl'' (Some ''key'') 2 =
   get_stock_news_unsliced (stub_env (ok_response (JArr (map JObj abc_items))))
     ''aapl'' (Some ''key'') 2 \<and>
   returned (get_stock_news_unsliced (stub_env (ok_response (JArr (map JObj abc_items))))
     ''aapl'' (Some ''key'') 2) = NewsList (map finnhub_item [''A. a'', ''B. b''])"
proof -
  let ?E = "stub_env (ok_response (JArr (map JObj abc_items)))"
  have sl: "slice_to (map JObj abc_items) 2 =
      map JObj [raw_fields ''A'' ''a'', raw_fields ''B'' ''b'']"
    by (simp add: slice_to_def abc_items_def numeral_2_eq_2)
  have u: "returned (get_stock_news_unsliced ?E ''aapl'' (Some ''key'') 2) =
      NewsList (map finnhub_item [''A. a'', ''B. b''])"
    by (simp add: stub_run_unsliced [OF sl])
       (simp add: news_item_of_raw_fields finnhub_item_def)
  have z: "(0::int) \<le> 2" by simp
  from final_slice_is_identity [OF z, of ?E "''aapl''" "Some ''key''"] u z show ?thesis
    by simp
qed

text \<open>
  C9 as stated, for every input, fails for a negative \<^verbatim>\<open>target_count\<close>: with
  \<^verbatim>\<open>target_count = -1\<close> and three raw items A, B, C the deduplicated list is A, B, and the
  slice \<^verbatim>\<open>unique_news[:-1]\<close> removes B.
\<close>

theorem final_slice_negative_count_counterexample:
  "returned (get_stock_news (stub_env (ok_response (JArr (map JObj abc_items))))
      ''aapl'' (Some ''key'') (- 1)) = NewsList (map finnhub_item [''A. a'']) \<and>
   returned (get_stock_news_unsliced (stub_env (ok_response (JArr (map JObj abc_items))))
      ''aapl'' (Some ''key'') (- 1)) = NewsList (map finnhub_item [''A. a'', ''B. b'']) \<and>
   get_stock_news (stub_env (ok_response (JArr (map JObj abc_items)))) ''aapl'' (Some ''key'') (- 1)
     \<noteq> get_stock_news_unsliced (stub_env (ok_response (JArr (map JObj abc_items))))
          ''aapl'' (Some ''key'') (- 1)"
proof -
  let ?E = "stub_env (ok_response (JArr (map JObj abc_items)))"
  have sl: "slice_to (map JObj abc_items) (- 1) =
      map JObj [raw_fields ''A'' ''a'', raw_fields ''B'' ''b'']"
    by (simp add: slice_to_def abc_items_def)
  have r: "returned (get_stock_news ?E ''aapl'' (Some ''key'') (- 1)) =
      NewsList (map finnhub_item [''A. a''])"
    by (simp add: stub_run [OF sl])
       (simp add: news_item_of_raw_fields finnhub_item_def slice_to_def)
  have u: "returned (get_stock_news_unsliced ?E ''aapl'' (Some ''key'') (- 1)) =
      NewsList (map finnhub_item [''A. a'', ''B. b''])"
    by (simp add: stub_run_unsliced [OF sl])
       (simp add: news_item_of_raw_fields finnhub_item_def)
  have "returned (get_stock_news ?E ''aapl'' (Some ''key'') (- 1)) \<noteq>
      returned (get_stock_news_unsliced ?E ''aapl'' (Some ''key'') (- 1))"
    unfolding r u by (simp add: finnhub_item_def)
  then have "get_stock_news ?E ''aapl'' (Some ''key'') (- 1) \<noteq>
      get_stock_news_unsliced ?E ''aapl'' (Some ''key'') (- 1)"
    by auto
  with r u show ?thesis by simp
qed

text \<open>
  C10. With \<^verbatim>\<open>target_count = 0\<close>, a credential and a provider that answers with a list
  (of any length, so also a non-empty one), \<^verbatim>\<open>data[:0]\<close> consumes no item, \<^verbatim>\<open>all_news\<close>
  stays empty, and the call returns the ``No news found'' error value instead of a list.
\<close>

theorem zero_count_is_error:
  assumes "k \<noteq> []"
    and "provider E (news_request E (upper stock_symbol) k) = Inr resp"
    and "raise_for_status resp = None"
    and "json resp = Inr (JArr items)"
  shows "returned (get_stock_news E stock_symbol (Some k) 0) =
      ErrorDict ''No news found for the given stock symbol. Check if the symbol is correct.''"
proof -
  have "slice_to items 0 = map JObj []"
    by (simp add: slice_to_def)
  from get_stock_news_objects [OF assms this] show ?thesis
    by simp
qed

theorem zero_count_is_error_witness:
  "''key'' \<noteq> [] \<and>
   provider (stub_env (ok_response (JArr [raw_item ''X'' ''y''])))
     (news_request (stub_env (ok_response (JArr [raw_item ''X'' ''y'']))) (upper ''aapl'') ''key'') =
     Inr \<lparr>raise_for_status = None, json = Inr (JArr [raw_item ''X'' ''y''])\<rparr> \<and>
   returned (get_stock_news (stub_env (ok_response (JArr [raw_item ''X'' ''y''])))
       ''aapl'' (Some ''key'') 0) =
     ErrorDict ''No news found for the given stock symbol. Check if the symbol is correct.''"
proof -
  have p: "provider (stub_env (ok_response (JArr [raw_item ''X'' ''y''])))
     (news_request (stub_env (ok_response (JArr [raw_item ''X'' ''y'']))) (upper ''aapl'') ''key'') =
     Inr \<lparr>raise_for_status = None, json = Inr (JArr [raw_item ''X'' ''y''])\<rparr>"
    by (simp add: stub_env_def ok_response_def)
  have k: "''key'' \<noteq> []" by simp
  from zero_count_is_error [OF k p] k p show ?thesis
    by simp
qed

end
